theory Spec2Isabelle
  imports Main "HOL-Library.Monad_Syntax" "HOL-Library.Word"
begin

section \<open>Data model\<close>

text \<open>
  The embedding follows \<^verbatim>\<open>terminal.go\<close> and the file that declares \<^verbatim>\<open>Screen\<close>.
  A run-time panic (index or slice bound out of range, nil dereference, negative
  \<^verbatim>\<open>make\<close>) is the result \<open>None\<close>; a normal return is \<open>Some\<close> of the state the call
  leaves behind.

  A Go \<^verbatim>\<open>int\<close> has 64 bits. It is an \<^typ>\<open>int\<close> here, and a sum or difference that can
  leave the 64-bit range with a different outcome is wrapped by \<open>i64\<close>: the sums with
  the count \<open>ps\<close> in \<^verbatim>\<open>insertLines\<close> and \<^verbatim>\<open>deleteLines\<close> and their shallow variants,
  \<open>cursor.y + n\<close> in the method \<^verbatim>\<open>insertLines\<close>, and \<open>h - Height\<close> in \<^verbatim>\<open>resize\<close>.
  The other arithmetic stays inside the range or wraps to the same outcome: an index
  bounded by a slice length (a slice has fewer than \<open>2^63\<close> elements); \<open>Height - 1\<close> and
  \<open>Width - 1\<close>, which wrap only for a field equal to the least 64-bit value; \<open>col + ps\<close>
  in \<^verbatim>\<open>eraseCharacters\<close>, where a wrapped sum passes the guard and then bounds an empty
  loop, so that the rows are returned unchanged as they are when the guard fails; and
  \<open>col + actualPs\<close> in \<^verbatim>\<open>deleteCharacters\<close>, where a wrapped sum panics at the slice
  expression and an unwrapped one panics in the fill loop.
\<close>

definition i64 :: "int \<Rightarrow> int" where
  "i64 x = (x + 2 ^ 63) mod 2 ^ 64 - 2 ^ 63"

text \<open>A rune is only stored and compared; \<open>CHR 0x00\<close> is the zero value \<^verbatim>\<open>make\<close> gives.\<close>

type_synonym rune = char

datatype color = ColorDefault | Color16 nat | Color256 nat | ColorRGB nat nat nat

text \<open>
  Modelled from the spec: the declaration of \<^verbatim>\<open>Format\<close> is absent from the sources.
  "A Format carries: foreground colour, background colour, bold, italic, underline, blink,
  inverse, conceal, strikethrough"; "default Format is the zero value".
\<close>

record format =
  Fg :: color
  Bg :: color
  Bold :: bool
  Italic :: bool
  Underline :: bool
  Blink :: bool
  Inverse :: bool
  Conceal :: bool
  Strikethrough :: bool

definition Format_zero :: format where
  "Format_zero = \<lparr>Fg = ColorDefault, Bg = ColorDefault, Bold = False, Italic = False,
     Underline = False, Blink = False, Inverse = False, Conceal = False,
     Strikethrough = False\<rparr>"

record cursor =
  Y :: int
  X :: int
  F :: format
  S :: int

definition Cursor_zero :: cursor where
  "Cursor_zero = \<lparr>Y = 0, X = 0, F = Format_zero, S = 0\<rparr>"

record scroll_region =
  Start :: int
  End :: int

section \<open>Slices, the screen and the terminal\<close>

text \<open>
  A Go slice is a window on a backing array: \<open>cells\<close> are its \<^verbatim>\<open>len\<close> elements and
  \<open>spare\<close> are the elements of the backing array behind them, up to the capacity. A
  slice made by \<^verbatim>\<open>make\<close> has no spare elements; reslicing below the length moves
  elements to \<open>spare\<close>, and reslicing above the length, up to the capacity, brings them
  back.
\<close>

datatype 'a slice = Slice (cells: "'a list") (spare: "'a list")

text \<open>
  Modelled from the spec: the declaration of \<^verbatim>\<open>Screen\<close> in the sources has the fields
  \<open>Height\<close>, \<open>Width\<close>, \<open>Content\<close>, \<open>Format\<close> and \<open>Cursor\<close>; the fields
  \<open>SavedCursor\<close>, \<open>Changes\<close>, \<open>MaxY\<close>, \<open>MaxX\<close> and \<open>ScrollRegion\<close>, which
  \<^verbatim>\<open>terminal.go\<close> reads and writes through the embedded pointer, are those of spec
  section 3 ("savedCursor, changes (per-row counter), maxY, maxX, scrollRegion (optional
  [start,end] inclusive)"). A format row is kept cell by cell, as the declared type
  \<^verbatim>\<open>[][]Format\<close> has it; the row \<^verbatim>\<open>&Region{Size: n, F: f}\<close> of \<^verbatim>\<open>terminal.go\<close> is
  the freshly allocated row of \<open>n\<close> cells of format \<open>f\<close> ("a row's formats are stored as
  an ordered sequence of regions (size, format)").
\<close>

record screen =
  Height :: int
  Width :: int
  Content :: "rune slice slice"
  Format :: "format slice slice"
  Cursor :: cursor
  SavedCursor :: cursor
  Changes :: "64 word slice"
  MaxY :: int
  MaxX :: int
  ScrollRegion :: "scroll_region option"

text \<open>
  \<^verbatim>\<open>Terminal\<close>: \<open>Screen\<close> and \<open>Alt\<close> are pointers, \<open>None\<close> is nil. The hook
  \<^verbatim>\<open>onScrollback\<close> is a function value: \<open>onScrollback\<close> records whether one is
  registered and \<open>scrollback\<close> is the sequence of lines it has been called with.
\<close>

record terminal =
  Screen :: "screen option"
  Title :: string
  Alt :: "screen option"
  IsAlt :: bool
  AutoResizeY :: bool
  AutoResizeX :: bool
  Raw :: bool
  AppendOnly :: bool
  wrap :: bool
  onScrollback :: bool
  scrollback :: "(rune list \<times> format list) list"

section \<open>Slice operations\<close>

definition len :: "'a slice \<Rightarrow> int" where
  "len s = int (length (cells s))"

definition cap :: "'a slice \<Rightarrow> int" where
  "cap s = int (length (cells s) + length (spare s))"

text \<open>The nil slice, the zero value of a slice type.\<close>

definition nil :: "'a slice" where
  "nil = Slice [] []"

text \<open>\<^verbatim>\<open>xs[i]\<close> as a read and as a write: both panic outside the length.\<close>

definition idx :: "'a slice \<Rightarrow> int \<Rightarrow> 'a option" where
  "idx s i = (if 0 \<le> i \<and> i < len s then Some (cells s ! nat i) else None)"

definition upd :: "'a slice \<Rightarrow> int \<Rightarrow> 'a \<Rightarrow> 'a slice option" where
  "upd s i x = (if 0 \<le> i \<and> i < len s then Some (Slice ((cells s)[nat i := x]) (spare s))
                else None)"

text \<open>\<^verbatim>\<open>make([]T, n)\<close> filled with \<open>z\<close>: panics when \<open>n\<close> is negative.\<close>

definition make :: "int \<Rightarrow> 'a \<Rightarrow> 'a slice option" where
  "make n z = (if n < 0 then None else Some (Slice (replicate (nat n) z) []))"

text \<open>
  The slice expressions \<^verbatim>\<open>xs[:n]\<close> and \<^verbatim>\<open>xs[a:b]\<close>, whose upper bound may reach the
  capacity, and \<^verbatim>\<open>xs[a:]\<close>, whose upper bound is the length.
\<close>

definition slice_to :: "'a slice \<Rightarrow> int \<Rightarrow> 'a slice option" where
  "slice_to s n =
     (if 0 \<le> n \<and> n \<le> cap s
      then Some (Slice (take (nat n) (cells s @ spare s)) (drop (nat n) (cells s @ spare s)))
      else None)"

definition slice :: "'a slice \<Rightarrow> int \<Rightarrow> int \<Rightarrow> 'a slice option" where
  "slice s a b =
     (if 0 \<le> a \<and> a \<le> b \<and> b \<le> cap s
      then Some (Slice (take (nat (b - a)) (drop (nat a) (cells s @ spare s)))
                       (drop (nat b) (cells s @ spare s)))
      else None)"

definition slice_from :: "'a slice \<Rightarrow> int \<Rightarrow> 'a slice option" where
  "slice_from s a =
     (if 0 \<le> a \<and> a \<le> len s then Some (Slice (drop (nat a) (cells s)) (spare s)) else None)"

text \<open>
  \<^verbatim>\<open>copy(dst, src)\<close> gives the new elements of \<open>dst\<close>; when \<open>dst\<close> is the window
  \<open>xs[a:...]\<close> of a slice \<open>xs\<close>, \<open>write_at xs a\<close> puts them into the backing array of
  \<open>xs\<close> from index \<open>a\<close> on.
\<close>

definition copy :: "'a slice \<Rightarrow> 'a slice \<Rightarrow> 'a list" where
  "copy dst src = take (min (length (cells dst)) (length (cells src))) (cells src)
     @ drop (min (length (cells dst)) (length (cells src))) (cells dst)"

definition write_at :: "'a slice \<Rightarrow> int \<Rightarrow> 'a list \<Rightarrow> 'a slice" where
  "write_at s a xs =
     Slice (take (length (cells s))
              (take (nat a) (cells s @ spare s) @ xs @ drop (nat a + length xs) (cells s @ spare s)))
           (drop (length (cells s))
              (take (nat a) (cells s @ spare s) @ xs @ drop (nat a + length xs) (cells s @ spare s)))"

text \<open>
  \<^verbatim>\<open>append(xs, x)\<close>: with a spare element the backing array is written in place. With
  none a new array is allocated; the language leaves its capacity to the runtime, and
  \<open>extra c\<close> is the number of elements that the runtime leaves spare when it grows a
  full slice of \<open>c\<close> elements. They hold the zero value \<open>z\<close>.
\<close>

definition append1 :: "(nat \<Rightarrow> nat) \<Rightarrow> 'a \<Rightarrow> 'a slice \<Rightarrow> 'a \<Rightarrow> 'a slice" where
  "append1 extra z s x =
     (case spare s of
        [] \<Rightarrow> Slice (cells s @ [x]) (replicate (extra (length (cells s))) z)
      | y # ys \<Rightarrow> Slice (cells s @ [x]) ys)"

text \<open>A grid is a slice of rows; \<open>grid\<close> is what is visible of it.\<close>

definition grid :: "'a slice slice \<Rightarrow> 'a list list" where
  "grid g = map cells (cells g)"

text \<open>\<^verbatim>\<open>g[y][x] = v\<close> and \<^verbatim>\<open>g[y] = row\<close>.\<close>

definition set_cell :: "'a slice slice \<Rightarrow> int \<Rightarrow> int \<Rightarrow> 'a \<Rightarrow> 'a slice slice option" where
  "set_cell g y x v = do {
     row \<leftarrow> idx g y;
     row' \<leftarrow> upd row x v;
     upd g y row'
   }"

section \<open>Loops\<close>

text \<open>\<^verbatim>\<open>for i := lo; i < n; i++ { body }\<close> and \<^verbatim>\<open>for i := hi; i >= n; i-- { body }\<close>.\<close>

function for_up :: "int \<Rightarrow> int \<Rightarrow> (int \<Rightarrow> 's \<Rightarrow> 's option) \<Rightarrow> 's \<Rightarrow> 's option" where
  "for_up i n body s =
     (if i < n then (case body i s of None \<Rightarrow> None | Some s' \<Rightarrow> for_up (i + 1) n body s')
      else Some s)"
  by pat_completeness auto
termination
  by (relation "measure (\<lambda>(i, n, body, s). nat (n - i))") auto

function for_down :: "int \<Rightarrow> int \<Rightarrow> (int \<Rightarrow> 's \<Rightarrow> 's option) \<Rightarrow> 's \<Rightarrow> 's option" where
  "for_down i n body s =
     (if i \<ge> n then (case body i s of None \<Rightarrow> None | Some s' \<Rightarrow> for_down (i - 1) n body s')
      else Some s)"
  by pat_completeness auto
termination
  by (relation "measure (\<lambda>(i, n, body, s). nat (i - n + 1))") auto

declare for_up.simps [simp del] for_down.simps [simp del]

section \<open>The screen\<close>

text \<open>
  \<^verbatim>\<open>reset\<close> reallocates both grids from the \<open>Height\<close> and \<open>Width\<close> fields and homes
  the cursor; \<^verbatim>\<open>make([][]rune, Height)\<close> panics on a negative height, the row
  allocation on a negative width.
\<close>

definition Screen_reset :: "screen \<Rightarrow> screen option" where
  "Screen_reset s =
     (if Height s < 0 then None
      else if 0 < Height s \<and> Width s < 0 then None
      else Some (s\<lparr>Content := Slice (replicate (nat (Height s))
                                (Slice (replicate (nat (Width s)) CHR '' '') [])) [],
                   Format := Slice (replicate (nat (Height s))
                                (Slice (replicate (nat (Width s)) Format_zero) [])) [],
                   Cursor := (Cursor s)\<lparr>X := 0, Y := 0\<rparr>\<rparr>))"

definition newScreen :: "int \<Rightarrow> int \<Rightarrow> screen option" where
  "newScreen h w = Screen_reset
     \<lparr>Height = h, Width = w, Content = nil, Format = nil, Cursor = Cursor_zero,
      SavedCursor = Cursor_zero, Changes = nil, MaxY = 0, MaxX = 0, ScrollRegion = None\<rparr>"

text \<open>
  \<^verbatim>\<open>clear\<close>: the guard compares \<open>y\<close> with the number of rows and \<open>x\<close> with the length
  of row 0; the two writes index row \<open>y\<close>.
\<close>

definition Screen_clear :: "int \<Rightarrow> int \<Rightarrow> format \<Rightarrow> screen \<Rightarrow> screen option" where
  "Screen_clear y x fmt s =
     (if y \<ge> len (Content s) then Some s
      else do {
        r0 \<leftarrow> idx (Content s) 0;
        if x \<ge> len r0 then Some s
        else do {
          c \<leftarrow> set_cell (Content s) y x CHR '' '';
          fm \<leftarrow> set_cell (Format s) y x fmt;
          Some (s\<lparr>Content := c, Format := fm\<rparr>)
        }
      })"

text \<open>
  \<^verbatim>\<open>resize\<close>, height first, then width. Neither branch writes \<open>Height\<close>, \<open>Width\<close> or
  \<open>Cursor\<close>. Growing the height appends to both grids, shrinking it reslices them;
  growing the width replaces each row by a new one, shrinking it reslices each row.
\<close>

definition resize_grow_row :: "(nat \<Rightarrow> nat) \<Rightarrow> int \<Rightarrow> screen \<Rightarrow> screen option" where
  "resize_grow_row extra row s = do {
     r \<leftarrow> make (Width s) (CHR 0x00);
     fr \<leftarrow> make (Width s) Format_zero;
     for_up 0 (Width s) (\<lambda>col u. Screen_clear (Height u + row) col Format_zero u)
       (s\<lparr>Content := append1 extra nil (Content s) r, Format := append1 extra nil (Format s) fr\<rparr>)
   }"

definition resize_widen_row :: "int \<Rightarrow> int \<Rightarrow> screen \<Rightarrow> screen option" where
  "resize_widen_row w i s = do {
     row \<leftarrow> make w (CHR 0x00);
     old \<leftarrow> idx (Content s) i;
     c \<leftarrow> upd (Content s) i (Slice (copy row old) []);
     frow \<leftarrow> make w Format_zero;
     fold \<leftarrow> idx (Format s) i;
     fm \<leftarrow> upd (Format s) i (Slice (copy frow fold) []);
     for_up (Width s) w (\<lambda>j u. Screen_clear i j Format_zero u) (s\<lparr>Content := c, Format := fm\<rparr>)
   }"

definition resize_narrow_row :: "int \<Rightarrow> int \<Rightarrow> screen \<Rightarrow> screen option" where
  "resize_narrow_row w i s = do {
     old \<leftarrow> idx (Content s) i;
     row \<leftarrow> slice_to old w;
     c \<leftarrow> upd (Content s) i row;
     fold \<leftarrow> idx (Format s) i;
     frow \<leftarrow> slice_to fold w;
     fm \<leftarrow> upd (Format s) i frow;
     Some (s\<lparr>Content := c, Format := fm\<rparr>)
   }"

definition Screen_resize :: "(nat \<Rightarrow> nat) \<Rightarrow> int \<Rightarrow> int \<Rightarrow> screen \<Rightarrow> screen option" where
  "Screen_resize extra h w s = do {
     s1 \<leftarrow> (if h > Height s then for_up 0 (i64 (h - Height s)) (resize_grow_row extra) s
            else if h < Height s then do {
              c \<leftarrow> slice_to (Content s) h;
              fm \<leftarrow> slice_to (Format s) h;
              Some (s\<lparr>Content := c, Format := fm\<rparr>)
            }
            else Some s);
     if w > Width s1 then for_up 0 (len (Content s1)) (resize_widen_row w) s1
     else if w < Width s1 then for_up 0 (len (Content s1)) (resize_narrow_row w) s1
     else Some s1
   }"

section \<open>Helpers that the sources call and do not define\<close>

text \<open>
  Modelled from the spec: \<^verbatim>\<open>changed\<close> is absent from the sources. "Change ledger. Per
  row, an unsigned counter bumped whenever that row's content or format changes." A row
  outside the ledger is ignored (section 7: out-of-range indices are clamped or ignored).
\<close>

definition changed :: "int \<Rightarrow> bool \<Rightarrow> screen \<Rightarrow> screen" where
  "changed y cur s =
     (if 0 \<le> y \<and> y < len (Changes s)
      then s\<lparr>Changes := Slice ((cells (Changes s))[nat y := cells (Changes s) ! nat y + 1])
                             (spare (Changes s))\<rparr>
      else s)"

text \<open>
  Row \<open>y\<close> of a grid with its cells replaced: the row keeps its place in the backing
  array of the grid, and \<open>sp\<close> is what is spare behind the new cells.
\<close>

definition put_row :: "'a slice slice \<Rightarrow> int \<Rightarrow> 'a list \<Rightarrow> 'a list \<Rightarrow> 'a slice slice" where
  "put_row g y cs sp = Slice ((cells g)[nat y := Slice cs sp]) (spare g)"

definition in_grid :: "'a slice slice \<Rightarrow> int \<Rightarrow> int \<Rightarrow> bool" where
  "in_grid g y x = (0 \<le> y \<and> y < len g \<and> 0 \<le> x \<and> x < len (cells g ! nat y))"

text \<open>
  Modelled from the spec: \<^verbatim>\<open>Format.Paint\<close> is absent from the sources. "paint(col, f):
  set one cell at col to f"; a cell outside the grid is ignored.
\<close>

definition Format_Paint :: "int \<Rightarrow> int \<Rightarrow> format \<Rightarrow> format slice slice \<Rightarrow> format slice slice" where
  "Format_Paint y x fmt fm =
     (if in_grid fm y x
      then put_row fm y ((cells (cells fm ! nat y))[nat x := fmt]) (spare (cells fm ! nat y))
      else fm)"

text \<open>
  Modelled from the spec: \<^verbatim>\<open>Format.Delete\<close> is absent from the sources. "delete(col, n):
  delete n cells at col, extending the tail with default format"; a no-op when
  \<open>n \<le> 0\<close> or the position is outside the grid.
\<close>

definition Format_Delete :: "int \<Rightarrow> int \<Rightarrow> int \<Rightarrow> format slice slice \<Rightarrow> format slice slice" where
  "Format_Delete y x n fm =
     (if in_grid fm y x \<and> 0 < n
      then put_row fm y
             (take (length (cells (cells fm ! nat y)))
                (take (nat x) (cells (cells fm ! nat y))
                 @ drop (nat (x + n)) (cells (cells fm ! nat y))
                 @ replicate (nat n) Format_zero))
             (spare (cells fm ! nat y))
      else fm)"

text \<open>
  Modelled from the spec: \<^verbatim>\<open>paint\<close> is absent from the sources. "Paint (cursor.y,
  cursor.x) with r and current format; bump that row's change counter"; a cell outside
  the grid is ignored.
\<close>

definition paint :: "int \<Rightarrow> int \<Rightarrow> format \<Rightarrow> rune \<Rightarrow> screen \<Rightarrow> screen" where
  "paint y x fmt r s =
     (if in_grid (Content s) y x
      then changed y False
             (s\<lparr>Content := put_row (Content s) y ((cells (cells (Content s) ! nat y))[nat x := r])
                               (spare (cells (Content s) ! nat y)),
                Format := Format_Paint y x fmt (Format s)\<rparr>)
      else s)"

text \<open>
  Modelled from the spec: growing the height, used by \<^verbatim>\<open>moveRel\<close> and
  \<^verbatim>\<open>ensureHeight\<close>, both absent from the sources. "Grow height: append new rows of
  spaces with default format"; the ledger gets a counter for each new row. The grown
  grids and ledger are new allocations with nothing spare.
\<close>

definition growY :: "int \<Rightarrow> screen \<Rightarrow> screen" where
  "growY h s =
     (if h > Height s
      then s\<lparr>Height := h,
             Content := Slice (cells (Content s) @ replicate (nat (h - Height s))
                                 (Slice (replicate (nat (Width s)) CHR '' '') [])) [],
             Format := Slice (cells (Format s) @ replicate (nat (h - Height s))
                                 (Slice (replicate (nat (Width s)) Format_zero) [])) [],
             Changes := Slice (cells (Changes s) @ replicate (nat (h - Height s)) 0) []\<rparr>
      else s)"

text \<open>
  Modelled from the spec: extending one ragged row. "If autoResizeX and cursor now equals
  the row's current width, extend that row by one cell." The extended row is a new
  allocation with nothing spare.
\<close>

definition growRow :: "int \<Rightarrow> int \<Rightarrow> screen \<Rightarrow> screen" where
  "growRow y n s =
     (if 0 \<le> y \<and> y < len (Content s) \<and> y < len (Format s) \<and> len (cells (Content s) ! nat y) < n
      then s\<lparr>Content := put_row (Content s) y
                 (cells (cells (Content s) ! nat y)
                    @ replicate (nat (n - len (cells (Content s) ! nat y))) CHR '' '') [],
             Format := put_row (Format s) y
                 (cells (cells (Format s) ! nat y)
                    @ replicate (nat (n - len (cells (Format s) ! nat y))) Format_zero) []\<rparr>
      else s)"

text \<open>
  Modelled from the spec: \<^verbatim>\<open>moveRel\<close> is absent from the sources. Section 4.3:
  "Otherwise move right by one. If autoResizeX and cursor now equals the row's current
  width, extend that row by one cell"; "if cursor.y == height-1 and autoResizeY: grow
  height by one and move down. Else: cursor.y += 1"; section 7: "out-of-range indices are
  clamped". The wrap flag is left to the callers, as \<^verbatim>\<open>home\<close> of the source clears it
  itself before it moves.
\<close>

definition moveRel :: "int \<Rightarrow> int \<Rightarrow> terminal \<Rightarrow> terminal option" where
  "moveRel dy dx v = do {
     s \<leftarrow> Screen v;
     let y = Y (Cursor s) + dy;
     let x = X (Cursor s) + dx;
     let s1 = (if AutoResizeY v then growY (y + 1) s else s);
     let y' = max 0 (min (Height s1 - 1) y);
     let s2 = (if AutoResizeX v then growRow y' (x + 1) s1 else s1);
     let x' = (if AutoResizeX v then max 0 x else max 0 (min (Width s2 - 1) x));
     Some (v\<lparr>Screen := Some (s2\<lparr>Cursor := (Cursor s2)\<lparr>Y := y', X := x'\<rparr>\<rparr>)\<rparr>)
   }"

text \<open>
  Modelled from the spec: \<^verbatim>\<open>ensureHeight\<close> is absent from the sources and the spec
  does not describe it; \<^verbatim>\<open>insertLines\<close> takes it as a parameter. This instance makes
  sure that \<open>h\<close> rows exist by growing the height.
\<close>

definition ensureHeight :: "int \<Rightarrow> terminal \<Rightarrow> terminal option" where
  "ensureHeight h v = do {
     s \<leftarrow> Screen v;
     Some (v\<lparr>Screen := Some (growY h s)\<rparr>)
   }"

section \<open>The terminal: slice primitives\<close>

text \<open>
  The generic functions take the slice header by value and write through it: the caller's
  slice keeps its length and capacity and sees the new elements. In the deep variants
  a moved row is a new row made to the length of the old one and filled by \<^verbatim>\<open>copy\<close>,
  so it has nothing spare; \<^verbatim>\<open>insertLines\<close> and \<^verbatim>\<open>deleteLines\<close> move the row headers
  themselves.
\<close>

definition scrollUp :: "'a slice slice \<Rightarrow> int \<Rightarrow> int \<Rightarrow> int \<Rightarrow> 'a \<Rightarrow> 'a slice slice option" where
  "scrollUp arr positions start end' blank =
     (if start < 0 \<or> end' > len arr \<or> start \<ge> end' \<or> positions \<le> 0 then Some arr
      else do {
        a1 \<leftarrow> for_up start ((end' + 1) - positions)
                (\<lambda>i a. do { src \<leftarrow> idx a (i + positions); upd a i (Slice (cells src) []) }) arr;
        for_up (end' - positions + 1) (end' + 1)
          (\<lambda>i a. do { r \<leftarrow> idx a i; upd a i (Slice (replicate (length (cells r)) blank) []) }) a1
      })"

definition scrollUpShallow :: "'a slice \<Rightarrow> int \<Rightarrow> int \<Rightarrow> int \<Rightarrow> 'a \<Rightarrow> 'a slice option" where
  "scrollUpShallow arr positions start end' init =
     (if start < 0 \<or> end' > len arr \<or> start \<ge> end' \<or> positions \<le> 0 then Some arr
      else do {
        a1 \<leftarrow> for_up start ((end' + 1) - positions)
                (\<lambda>i a. do { src \<leftarrow> idx a (i + positions); upd a i src }) arr;
        for_up (end' - positions + 1) (end' + 1) (\<lambda>i a. upd a i init) a1
      })"

definition insertLines ::
  "'a slice slice \<Rightarrow> int \<Rightarrow> int \<Rightarrow> int \<Rightarrow> int \<Rightarrow> 'a \<Rightarrow> 'a slice slice option" where
  "insertLines arr start ps scrollStart scrollEnd blank =
     (if start < 0 \<or> i64 (start + ps) > len arr \<or> ps \<le> 0 then Some arr
      else do {
        a1 \<leftarrow> for_down scrollEnd (i64 (start + ps))
                (\<lambda>i a. do { src \<leftarrow> idx a (i64 (i - ps)); upd a i src }) arr;
        for_up start (i64 (start + ps))
          (\<lambda>i a. do { r \<leftarrow> idx a i; upd a i (Slice (replicate (length (cells r)) blank) []) }) a1
      })"

definition insertLinesShallow ::
  "'a slice \<Rightarrow> int \<Rightarrow> int \<Rightarrow> int \<Rightarrow> int \<Rightarrow> 'a \<Rightarrow> 'a slice option" where
  "insertLinesShallow arr start ps scrollStart scrollEnd init =
     (if start < 0 \<or> i64 (start + ps) > len arr \<or> ps \<le> 0 then Some arr
      else do {
        a1 \<leftarrow> for_down scrollEnd (i64 (start + ps))
                (\<lambda>i a. do { src \<leftarrow> idx a (i64 (i - ps)); upd a i src }) arr;
        for_up start (i64 (start + ps)) (\<lambda>i a. upd a i init) a1
      })"

definition deleteLines ::
  "'a slice slice \<Rightarrow> int \<Rightarrow> int \<Rightarrow> int \<Rightarrow> int \<Rightarrow> 'a \<Rightarrow> 'a slice slice option" where
  "deleteLines arr start ps scrollStart scrollEnd blank =
     (if start < 0 \<or> i64 (start + ps) > len arr \<or> ps \<le> 0 then Some arr
      else do {
        dst \<leftarrow> slice arr start scrollEnd;
        src \<leftarrow> slice_from arr (i64 (start + ps));
        let a1 = write_at arr start (copy dst src);
        for_up (i64 (i64 (scrollEnd - ps) + 1)) (i64 (scrollEnd + 1))
          (\<lambda>i a. do { r \<leftarrow> idx a start; upd a i (Slice (replicate (length (cells r)) blank) []) }) a1
      })"

definition deleteLinesShallow ::
  "'a slice \<Rightarrow> int \<Rightarrow> int \<Rightarrow> int \<Rightarrow> int \<Rightarrow> 'a \<Rightarrow> 'a slice option" where
  "deleteLinesShallow arr start ps scrollStart scrollEnd init =
     (if start < 0 \<or> i64 (start + ps) > len arr \<or> ps \<le> 0 then Some arr
      else do {
        dst \<leftarrow> slice arr start scrollEnd;
        src \<leftarrow> slice_from arr (i64 (start + ps));
        let a1 = write_at arr start (copy dst src);
        for_up (i64 (i64 (scrollEnd - ps) + 1)) (i64 (scrollEnd + 1)) (\<lambda>i a. upd a i init) a1
      })"

text \<open>The guard of \<^verbatim>\<open>eraseCharacters\<close> reads \<open>ps\<close> before \<open>ps \<le> 0\<close> is turned into 1.\<close>

definition eraseCharacters ::
  "'a slice slice \<Rightarrow> int \<Rightarrow> int \<Rightarrow> int \<Rightarrow> 'a \<Rightarrow> 'a slice slice option" where
  "eraseCharacters arr row col ps blank =
     (if row < 0 \<or> row \<ge> len arr then Some arr
      else do {
        r \<leftarrow> idx arr row;
        if col < 0 \<or> col + ps > len r then Some arr
        else do {
          let ps1 = (if ps \<le> 0 then 1 else ps);
          r' \<leftarrow> for_up col (col + ps1) (\<lambda>i a. upd a i blank) r;
          upd arr row r'
        }
      })"

text \<open>
  \<^verbatim>\<open>deleteCharacters\<close>: the shift uses \<open>actualPs\<close>, the fill loop starts at
  \<open>len(arr[row]) - ps\<close>.
\<close>

definition deleteCharacters ::
  "'a slice slice \<Rightarrow> int \<Rightarrow> int \<Rightarrow> int \<Rightarrow> 'a \<Rightarrow> 'a slice slice option" where
  "deleteCharacters arr row col ps blank =
     (if row < 0 \<or> row \<ge> len arr then Some arr
      else do {
        r \<leftarrow> idx arr row;
        if col < 0 \<or> col \<ge> len r \<or> ps < 0 then Some arr
        else do {
          let actualPs = (if ps = 0 then 1 else ps);
          let actualPs = (if col + actualPs > len r then len r - col else actualPs);
          dst \<leftarrow> slice_from r col;
          src \<leftarrow> slice_from r (col + actualPs);
          let r1 = write_at r col (copy dst src);
          r2 \<leftarrow> for_up (len r1 - ps) (len r1) (\<lambda>i a. upd a i blank) r1;
          upd arr row r2
        }
      })"

section \<open>The terminal: methods\<close>

text \<open>
  \<^verbatim>\<open>NewTerminal\<close>: \<^verbatim>\<open>v.reset()\<close> is the \<^verbatim>\<open>reset\<close> of the embedded screen. No
  alternate screen is allocated.
\<close>

definition NewTerminal :: "int \<Rightarrow> int \<Rightarrow> terminal option" where
  "NewTerminal rows cols = do {
     s \<leftarrow> newScreen rows cols;
     s' \<leftarrow> Screen_reset s;
     Some \<lparr>Screen = Some s', Title = [], Alt = None, IsAlt = False, AutoResizeY = False,
           AutoResizeX = False, Raw = False, AppendOnly = False, wrap = False,
           onScrollback = False, scrollback = []\<rparr>
   }"

definition Terminal_resize :: "(nat \<Rightarrow> nat) \<Rightarrow> int \<Rightarrow> int \<Rightarrow> terminal \<Rightarrow> terminal option" where
  "Terminal_resize extra h w v = do {
     s \<leftarrow> Screen v;
     s' \<leftarrow> Screen_resize extra h w s;
     a' \<leftarrow> (case Alt v of None \<Rightarrow> Some None
            | Some a \<Rightarrow> do { a1 \<leftarrow> Screen_resize extra h w a; Some (Some a1) });
     Some (v\<lparr>Screen := Some s', Alt := a'\<rparr>)
   }"

definition scrollRegion :: "screen \<Rightarrow> int \<times> int" where
  "scrollRegion s = (case ScrollRegion s of None \<Rightarrow> (0, Height s - 1)
                     | Some r \<Rightarrow> (Start r, End r))"

text \<open>
  \<^verbatim>\<open>scrollUpN\<close>: the loop over the evicted lines runs when a hook is registered, and
  its body is a comment: the hook is not called. The wrap flag is left alone.
\<close>

definition scrollUpN :: "int \<Rightarrow> terminal \<Rightarrow> terminal option" where
  "scrollUpN n v = do {
     v0 \<leftarrow> (if onScrollback v then for_up 0 n (\<lambda>i u. Some u) v else Some v);
     s \<leftarrow> Screen v0;
     let (start, end') = scrollRegion s;
     c \<leftarrow> scrollUp (Content s) n start end' CHR '' '';
     fm \<leftarrow> scrollUpShallow (Format s) n start end' (Slice (replicate (nat (Width s)) (F (Cursor s))) []);
     ch \<leftarrow> scrollUpShallow (Changes s) n start end' 1;
     Some (v0\<lparr>Screen := Some (s\<lparr>Content := c, Format := fm, Changes := ch\<rparr>)\<rparr>)
   }"

definition moveDown :: "terminal \<Rightarrow> terminal option" where
  "moveDown v = do {
     s \<leftarrow> Screen v;
     if (case ScrollRegion s of None \<Rightarrow> False | Some r \<Rightarrow> Y (Cursor s) = End r)
     then scrollUpN 1 v
     else if Y (Cursor s) = Height s - 1 \<and> \<not> AutoResizeY v then scrollUpN 1 v
     else moveRel 1 0 v
   }"

definition advance :: "terminal \<Rightarrow> terminal option" where
  "advance v = do {
     s \<leftarrow> Screen v;
     if \<not> AutoResizeX v \<and> X (Cursor s) = Width s - 1 then Some (v\<lparr>wrap := True\<rparr>)
     else do {
       v1 \<leftarrow> moveRel 0 1 v;
       s1 \<leftarrow> Screen v1;
       Some (v1\<lparr>Screen := Some (changed (Y (Cursor s1)) True s1)\<rparr>)
     }
   }"

definition put :: "rune \<Rightarrow> terminal \<Rightarrow> terminal option" where
  "put r v = do {
     v1 \<leftarrow> (if wrap v then do {
              s \<leftarrow> Screen v;
              v' \<leftarrow> moveDown (v\<lparr>Screen := Some (s\<lparr>Cursor := (Cursor s)\<lparr>X := 0\<rparr>\<rparr>)\<rparr>);
              Some (v'\<lparr>wrap := False\<rparr>)
            } else Some v);
     s1 \<leftarrow> Screen v1;
     let x = X (Cursor s1);
     let y = Y (Cursor s1);
     let f = F (Cursor s1);
     let s2 = paint y x f r s1;
     let s3 = (if y > MaxY s2 then s2\<lparr>MaxY := y\<rparr> else s2);
     let s4 = (if x > MaxX s3 then s3\<lparr>MaxX := x\<rparr> else s3);
     advance (v1\<lparr>Screen := Some s4\<rparr>)
   }"

definition swapAlt :: "terminal \<Rightarrow> terminal" where
  "swapAlt v = v\<lparr>IsAlt := \<not> IsAlt v, Screen := Alt v, Alt := Screen v\<rparr>"

definition Terminal_deleteCharacters :: "int \<Rightarrow> terminal \<Rightarrow> terminal option" where
  "Terminal_deleteCharacters n v = do {
     s \<leftarrow> Screen v;
     c \<leftarrow> deleteCharacters (Content s) (Y (Cursor s)) (X (Cursor s)) n CHR '' '';
     let fm = Format_Delete (Y (Cursor s)) (X (Cursor s)) n (Format s);
     Some (v\<lparr>wrap := False,
             Screen := Some (changed (Y (Cursor s)) False (s\<lparr>Content := c, Format := fm\<rparr>))\<rparr>)
   }"

definition Terminal_eraseCharacters :: "int \<Rightarrow> terminal \<Rightarrow> terminal option" where
  "Terminal_eraseCharacters n v = do {
     s \<leftarrow> Screen v;
     c \<leftarrow> eraseCharacters (Content s) (Y (Cursor s)) (X (Cursor s)) n CHR '' '';
     fm \<leftarrow> for_up 0 n
             (\<lambda>i fm. Some (Format_Paint (Y (Cursor s)) (X (Cursor s) + i) (F (Cursor s)) fm))
             (Format s);
     Some (v\<lparr>wrap := False,
             Screen := Some (changed (Y (Cursor s)) False (s\<lparr>Content := c, Format := fm\<rparr>))\<rparr>)
   }"

text \<open>
  \<^verbatim>\<open>insertLines\<close> calls \<^verbatim>\<open>ensureHeight\<close> before anything else; the parameter \<open>eh\<close>
  stands for it.
\<close>

definition Terminal_insertLines ::
  "(int \<Rightarrow> terminal \<Rightarrow> terminal option) \<Rightarrow> int \<Rightarrow> terminal \<Rightarrow> terminal option" where
  "Terminal_insertLines eh n v = do {
     s0 \<leftarrow> Screen v;
     v1 \<leftarrow> eh (i64 (Y (Cursor s0) + n)) v;
     s \<leftarrow> Screen v1;
     let (start, end') = scrollRegion s;
     if Y (Cursor s) < start \<or> Y (Cursor s) > end' then Some v1
     else do {
       c \<leftarrow> insertLines (Content s) (Y (Cursor s)) n start end' CHR '' '';
       fm \<leftarrow> insertLinesShallow (Format s) (Y (Cursor s)) n start end'
               (Slice (replicate (nat (Width s)) (F (Cursor s))) []);
       ch \<leftarrow> insertLinesShallow (Changes s) (Y (Cursor s)) n start end' 1;
       Some (v1\<lparr>wrap := False, Screen := Some (s\<lparr>Content := c, Format := fm, Changes := ch\<rparr>)\<rparr>)
     }
   }"

definition Terminal_deleteLines :: "int \<Rightarrow> terminal \<Rightarrow> terminal option" where
  "Terminal_deleteLines n v = do {
     s \<leftarrow> Screen v;
     let (start, end') = scrollRegion s;
     if Y (Cursor s) < start \<or> Y (Cursor s) > end' then Some v
     else do {
       c \<leftarrow> deleteLines (Content s) (Y (Cursor s)) n start end' CHR '' '';
       fm \<leftarrow> deleteLinesShallow (Format s) (Y (Cursor s)) n start end'
               (Slice (replicate (nat (Width s)) (F (Cursor s))) []);
       ch \<leftarrow> deleteLinesShallow (Changes s) (Y (Cursor s)) n start end' 1;
       Some (v\<lparr>wrap := False, Screen := Some (s\<lparr>Content := c, Format := fm, Changes := ch\<rparr>)\<rparr>)
     }
   }"

definition save :: "terminal \<Rightarrow> terminal option" where
  "save v = do { s \<leftarrow> Screen v; Some (v\<lparr>Screen := Some (s\<lparr>SavedCursor := Cursor s\<rparr>)\<rparr>) }"

definition unsave :: "terminal \<Rightarrow> terminal option" where
  "unsave v = do { s \<leftarrow> Screen v; Some (v\<lparr>Screen := Some (s\<lparr>Cursor := SavedCursor s\<rparr>)\<rparr>) }"

section \<open>Operation sequences\<close>

text \<open>
  The operations modelled above as commands: \<open>extra\<close> is the growth policy of
  \<^verbatim>\<open>append\<close>, and \<open>InsertLines\<close> uses the instance \<open>ensureHeight\<close>. A sequence of
  steps stops at the first panic.
\<close>

datatype op =
    Put rune
  | MoveDown
  | ScrollUpN int
  | InsertLines int
  | DeleteLines int
  | EraseCharacters int
  | DeleteCharacters int
  | Resize int int
  | Save
  | Unsave
  | SwapAlt

fun apply_op :: "(nat \<Rightarrow> nat) \<Rightarrow> op \<Rightarrow> terminal \<Rightarrow> terminal option" where
  "apply_op extra (Put r) v = put r v"
| "apply_op extra MoveDown v = moveDown v"
| "apply_op extra (ScrollUpN n) v = scrollUpN n v"
| "apply_op extra (InsertLines n) v = Terminal_insertLines ensureHeight n v"
| "apply_op extra (DeleteLines n) v = Terminal_deleteLines n v"
| "apply_op extra (EraseCharacters n) v = Terminal_eraseCharacters n v"
| "apply_op extra (DeleteCharacters n) v = Terminal_deleteCharacters n v"
| "apply_op extra (Resize h w) v = Terminal_resize extra h w v"
| "apply_op extra Save v = save v"
| "apply_op extra Unsave v = unsave v"
| "apply_op extra SwapAlt v = Some (swapAlt v)"

fun steps :: "(terminal \<Rightarrow> terminal option) list \<Rightarrow> terminal \<Rightarrow> terminal option" where
  "steps [] v = Some v"
| "steps (f # fs) v = Option.bind (f v) (steps fs)"

definition run :: "(nat \<Rightarrow> nat) \<Rightarrow> op list \<Rightarrow> terminal \<Rightarrow> terminal option" where
  "run extra ops v = steps (map (apply_op extra) ops) v"

text \<open>
  A growth policy for the concrete runs: a full slice of \<open>c\<close> elements that grows by one
  gets the capacity \<open>2 * c\<close> (and 1 when \<open>c = 0\<close>), so \<open>c - 1\<close> elements are spare.
\<close>

definition cap_doubling :: "nat \<Rightarrow> nat" where
  "cap_doubling c = c - 1"

section \<open>Observations and the spec's words\<close>

text \<open>What a reader sees of the active screen after an operation.\<close>

definition content_of :: "terminal option \<Rightarrow> rune list list option" where
  "content_of r = do { v \<leftarrow> r; s \<leftarrow> Screen v; Some (grid (Content s)) }"

definition changes_of :: "terminal option \<Rightarrow> 64 word list option" where
  "changes_of r = do { v \<leftarrow> r; s \<leftarrow> Screen v; Some (cells (Changes s)) }"

definition cursor_of :: "terminal option \<Rightarrow> cursor option" where
  "cursor_of r = do { v \<leftarrow> r; s \<leftarrow> Screen v; Some (Cursor s) }"

definition saved_of :: "terminal option \<Rightarrow> cursor option" where
  "saved_of r = do { v \<leftarrow> r; s \<leftarrow> Screen v; Some (SavedCursor s) }"

text \<open>An operation that leaves the saved cursor of the active screen as it is.\<close>

definition keeps_saved :: "(terminal \<Rightarrow> terminal option) \<Rightarrow> bool" where
  "keeps_saved f = (\<forall>u u'. f u = Some u' \<longrightarrow> saved_of (Some u') = saved_of (Some u))"

text \<open>The fields of a screen other than the two grids.\<close>

definition kept :: "screen \<Rightarrow> screen \<Rightarrow> bool" where
  "kept s u = (Height u = Height s \<and> Width u = Width s \<and> Cursor u = Cursor s
     \<and> SavedCursor u = SavedCursor s \<and> Changes u = Changes s \<and> MaxY u = MaxY s
     \<and> MaxX u = MaxX s \<and> ScrollRegion u = ScrollRegion s)"

text \<open>The cursor is on a cell of its row, in both grids, and on a row below \<open>Height\<close>.\<close>

definition cursor_ok :: "screen \<Rightarrow> bool" where
  "cursor_ok s = (Y (Cursor s) < Height s
     \<and> in_grid (Content s) (Y (Cursor s)) (X (Cursor s))
     \<and> in_grid (Format s) (Y (Cursor s)) (X (Cursor s)))"

text \<open>
  Step 1 of \<^verbatim>\<open>put\<close> in the spec's words: "If wrap is set: move cursor to column 0 and
  invoke moveDown(); clear wrap."
\<close>

definition put_wrap_step :: "terminal \<Rightarrow> terminal option" where
  "put_wrap_step v =
     (if wrap v then do {
        s \<leftarrow> Screen v;
        v' \<leftarrow> moveDown (v\<lparr>Screen := Some (s\<lparr>Cursor := (Cursor s)\<lparr>X := 0\<rparr>\<rparr>)\<rparr>);
        Some (v'\<lparr>wrap := False\<rparr>)
      } else Some v)"

text \<open>
  The middle of \<^verbatim>\<open>put\<close>, between the pending wrap and \<^verbatim>\<open>advance\<close>: the cell
  under the cursor is painted and the used extents \<open>MaxY\<close>, \<open>MaxX\<close> follow.
\<close>

definition put_paint_step :: "rune \<Rightarrow> screen \<Rightarrow> screen" where
  "put_paint_step r s =
     (let x = X (Cursor s);
          y = Y (Cursor s);
          s2 = paint y x (F (Cursor s)) r s;
          s3 = (if y > MaxY s2 then s2\<lparr>MaxY := y\<rparr> else s2)
      in (if x > MaxX s3 then s3\<lparr>MaxX := x\<rparr> else s3))"

section \<open>Scenario states\<close>

text \<open>
  The 5 by 10 terminal of the end-to-end scenarios, both auto-resize flags off, with the
  rows "L0" to "L4", the cursor at \<open>(y, x)\<close> and the given scroll region. Its grids and
  ledger are as \<^verbatim>\<open>make\<close> leaves them, with nothing spare.
\<close>

definition at :: "int \<Rightarrow> int \<Rightarrow> cursor" where
  "at y x = \<lparr>Y = y, X = x, F = Format_zero, S = 0\<rparr>"

definition fresh_grid :: "'a list list \<Rightarrow> 'a slice slice" where
  "fresh_grid rows = Slice (map (\<lambda>r. Slice r []) rows) []"

definition screen_of :: "rune list list \<Rightarrow> cursor \<Rightarrow> scroll_region option \<Rightarrow> screen" where
  "screen_of rows c r =
     \<lparr>Height = 5, Width = 10, Content = fresh_grid rows,
      Format = fresh_grid (replicate 5 (replicate 10 Format_zero)),
      Cursor = c, SavedCursor = Cursor_zero, Changes = Slice (replicate 5 0) [], MaxY = 0,
      MaxX = 0, ScrollRegion = r\<rparr>"

definition terminal_of :: "screen \<Rightarrow> terminal" where
  "terminal_of s =
     \<lparr>Screen = Some s, Title = [], Alt = None, IsAlt = False, AutoResizeY = False,
      AutoResizeX = False, Raw = False, AppendOnly = False, wrap = False,
      onScrollback = False, scrollback = []\<rparr>"

definition rows_L :: "rune list list" where
  "rows_L = [''L0        '', ''L1        '', ''L2        '', ''L3        '', ''L4        '']"

definition term_at :: "int \<Rightarrow> int \<Rightarrow> scroll_region option \<Rightarrow> terminal" where
  "term_at y x r = terminal_of (screen_of rows_L (at y x) r)"

text \<open>Scenario S2 with a scrollback hook registered.\<close>

definition term_S2 :: terminal where
  "term_S2 = (term_at 4 0 None)\<lparr>onScrollback := True\<rparr>"

text \<open>Scenario S1 after the tenth 'A': the cursor is on the last column, wrap is pending.\<close>

definition term_S1 :: terminal where
  "term_S1 = (terminal_of (screen_of
       [''AAAAAAAAAA'', ''          '', ''          '', ''          '', ''          '']
       (at 0 9) None))\<lparr>wrap := True\<rparr>"

text \<open>A screen with ragged rows, as auto-resize of the width leaves them.\<close>

definition screen_ragged :: screen where
  "screen_ragged =
     \<lparr>Height = 2, Width = 0, Content = fresh_grid [''abcde'', ''ab''],
      Format = fresh_grid [replicate 5 Format_zero, replicate 2 Format_zero],
      Cursor = Cursor_zero, SavedCursor = Cursor_zero, Changes = Slice [0, 0] [], MaxY = 1,
      MaxX = 4, ScrollRegion = None\<rparr>"

text \<open>A terminal of one row of ten cells, the cursor at (0,0), no scroll region.\<close>

definition term_one_row :: terminal where
  "term_one_row = terminal_of
     \<lparr>Height = 1, Width = 10, Content = fresh_grid [''L0        ''],
      Format = fresh_grid [replicate 10 Format_zero],
      Cursor = at 0 0, SavedCursor = Cursor_zero, Changes = Slice [0] [], MaxY = 0, MaxX = 0,
      ScrollRegion = None\<rparr>"

section \<open>Loops\<close>

lemma for_up_done: "n \<le> i \<Longrightarrow> for_up i n body s = Some s"
  by (simp add: for_up.simps)

lemma for_up_step: "i < n \<Longrightarrow> for_up i n body s = Option.bind (body i s) (for_up (i + 1) n body)"
  by (subst for_up.simps) (simp split: option.split)

lemma for_down_done: "i < n \<Longrightarrow> for_down i n body s = Some s"
  by (simp add: for_down.simps)

lemma for_down_step: "n \<le> i \<Longrightarrow> for_down i n body s = Option.bind (body i s) (for_down (i - 1) n body)"
  by (subst for_down.simps) (simp split: option.split)

text \<open>A property that every iteration keeps is kept by the loop.\<close>

lemma for_up_inv:
  "for_up i n body s = Some s' \<Longrightarrow> (\<forall>j u u'. body j u = Some u' \<longrightarrow> P u \<longrightarrow> P u') \<Longrightarrow> P s \<Longrightarrow> P s'"
proof (induction i n body s rule: for_up.induct)
  case (1 i n body s)
  show ?case
  proof (cases "i < n")
    case True
    with "1.prems"(1) obtain u where u: "body i s = Some u" and r: "for_up (i + 1) n body u = Some s'"
      by (auto simp: for_up_step split: Option.bind_splits)
    from "1.prems"(2,3) u have "P u" by blast
    with "1.IH" [OF True u r "1.prems"(2)] show ?thesis .
  next
    case False
    with "1.prems" show ?thesis by (simp add: for_up_done)
  qed
qed

text \<open>A loop whose body does nothing returns its state.\<close>

lemma for_up_skip: "for_up i n (\<lambda>j u. Some u) s = Some s"
proof (induction "nat (n - i)" arbitrary: i)
  case 0
  then show ?case by (simp add: for_up_done)
next
  case (Suc k)
  then have "i < n" and "k = nat (n - (i + 1))" by auto
  with Suc.hyps(1) [of "i + 1"] show ?case by (simp add: for_up_step)
qed

lemma for_up_one: "for_up i (i + 1) body s = body i s"
  by (cases "body i s") (simp_all add: for_up_step for_up_done)

lemma i64_id: "- (2 ^ 63) \<le> x \<Longrightarrow> x < 2 ^ 63 \<Longrightarrow> i64 x = x"
  by (simp add: i64_def)

section \<open>Scrolling\<close>

text \<open>The hook loop of \<^verbatim>\<open>scrollUpN\<close> has an empty body: it leaves the terminal as it is.\<close>

lemma scrollUpN_unfold:
  "scrollUpN n v = do {
     s \<leftarrow> Screen v;
     c \<leftarrow> scrollUp (Content s) n (fst (scrollRegion s)) (snd (scrollRegion s)) CHR '' '';
     fm \<leftarrow> scrollUpShallow (Format s) n (fst (scrollRegion s)) (snd (scrollRegion s)) (Slice (replicate (nat (Width s)) (F (Cursor s))) []);
     ch \<leftarrow> scrollUpShallow (Changes s) n (fst (scrollRegion s)) (snd (scrollRegion s)) 1;
     Some (v\<lparr>Screen := Some (s\<lparr>Content := c, Format := fm, Changes := ch\<rparr>)\<rparr>)
   }"
  by (simp add: scrollUpN_def for_up_skip split_beta Let_def)

lemma scrollUpN_scrollback: "scrollUpN n v = Some v' \<Longrightarrow> scrollback v' = scrollback v \<and> onScrollback v' = onScrollback v"
  by (auto simp: scrollUpN_unfold split: Option.bind_splits)

section \<open>Resizing a screen\<close>

text \<open>\<^verbatim>\<open>Screen.resize\<close> assigns the two grids and no other field, for every input.\<close>

lemma kept_refl: "kept s s"
  by (simp add: kept_def)

lemma Screen_clear_kept: "Screen_clear y x fmt u = Some u' \<Longrightarrow> kept s u \<Longrightarrow> kept s u'"
  unfolding Screen_clear_def kept_def
  by (auto split: if_splits Option.bind_splits)

lemma resize_grow_row_kept:
  assumes "resize_grow_row extra row u = Some u'" and "kept s u"
  shows "kept s u'"
proof -
  from assms(1) obtain r fr where
    l: "for_up 0 (Width u) (\<lambda>col t. Screen_clear (Height t + row) col Format_zero t)
          (u\<lparr>Content := append1 extra nil (Content u) r, Format := append1 extra nil (Format u) fr\<rparr>) = Some u'"
    unfolding resize_grow_row_def by (auto split: Option.bind_splits)
  have "kept s (u\<lparr>Content := append1 extra nil (Content u) r, Format := append1 extra nil (Format u) fr\<rparr>)"
    using assms(2) by (simp add: kept_def)
  with for_up_inv [OF l, where P = "kept s"] show ?thesis
    by (blast intro: Screen_clear_kept)
qed

lemma resize_widen_row_kept:
  assumes "resize_widen_row w i u = Some u'" and "kept s u"
  shows "kept s u'"
proof -
  from assms(1) obtain c fm where
    l: "for_up (Width u) w (\<lambda>j t. Screen_clear i j Format_zero t) (u\<lparr>Content := c, Format := fm\<rparr>) = Some u'"
    unfolding resize_widen_row_def by (auto split: Option.bind_splits)
  have "kept s (u\<lparr>Content := c, Format := fm\<rparr>)"
    using assms(2) by (simp add: kept_def)
  with for_up_inv [OF l, where P = "kept s"] show ?thesis
    by (blast intro: Screen_clear_kept)
qed

lemma resize_narrow_row_kept:
  "resize_narrow_row w i u = Some u' \<Longrightarrow> kept s u \<Longrightarrow> kept s u'"
  unfolding resize_narrow_row_def kept_def
  by (auto split: Option.bind_splits)

lemma Screen_resize_kept:
  assumes "Screen_resize extra h w s = Some s'"
  shows "kept s s'"
proof -
  from assms obtain s1 where
    a: "(if h > Height s then for_up 0 (i64 (h - Height s)) (resize_grow_row extra) s
            else if h < Height s then do {
              c \<leftarrow> slice_to (Content s) h;
              fm \<leftarrow> slice_to (Format s) h;
              Some (s\<lparr>Content := c, Format := fm\<rparr>)
            }
            else Some s) = Some s1"
    and b: "(if w > Width s1 then for_up 0 (len (Content s1)) (resize_widen_row w) s1
     else if w < Width s1 then for_up 0 (len (Content s1)) (resize_narrow_row w) s1
     else Some s1) = Some s'"
    unfolding Screen_resize_def by (auto split: Option.bind_splits)
  have 1: "kept s s1"
  proof (cases "h > Height s")
    case True
    with a have l: "for_up 0 (i64 (h - Height s)) (resize_grow_row extra) s = Some s1" by simp
    from for_up_inv [OF l, where P = "kept s"] show ?thesis
      by (blast intro: resize_grow_row_kept kept_refl)
  next
    case False
    with a show ?thesis by (auto simp: kept_def split: if_splits Option.bind_splits)
  qed
  show ?thesis
  proof (cases "w > Width s1")
    case True
    with b have l: "for_up 0 (len (Content s1)) (resize_widen_row w) s1 = Some s'" by simp
    from for_up_inv [OF l, where P = "kept s"] 1 show ?thesis
      by (blast intro: resize_widen_row_kept)
  next
    case False
    show ?thesis
    proof (cases "w < Width s1")
      case True
      with b False have l: "for_up 0 (len (Content s1)) (resize_narrow_row w) s1 = Some s'" by simp
      from for_up_inv [OF l, where P = "kept s"] 1 show ?thesis
        by (blast intro: resize_narrow_row_kept)
    next
      case F2: False
      with b False 1 show ?thesis by simp
    qed
  qed
qed

section \<open>The saved cursor\<close>

text \<open>
  Every modelled operation other than \<^verbatim>\<open>save\<close> and \<^verbatim>\<open>swapAlt\<close> leaves the saved cursor
  of the active screen as it is.
\<close>

lemma changed_saved [simp]: "SavedCursor (changed y c s) = SavedCursor s"
  by (simp add: changed_def)

lemma paint_saved [simp]: "SavedCursor (paint y x f r s) = SavedCursor s"
  by (simp add: paint_def)

lemma growY_saved [simp]: "SavedCursor (growY h s) = SavedCursor s"
  by (simp add: growY_def)

lemma growRow_saved [simp]: "SavedCursor (growRow y n s) = SavedCursor s"
  by (simp add: growRow_def)

lemma scrollUpN_saved: "scrollUpN n v = Some v' \<Longrightarrow> saved_of (Some v') = saved_of (Some v)"
  by (auto simp: scrollUpN_unfold saved_of_def split: Option.bind_splits)

lemma moveRel_saved: "moveRel dy dx v = Some v' \<Longrightarrow> saved_of (Some v') = saved_of (Some v)"
  by (auto simp: moveRel_def saved_of_def Let_def split: Option.bind_splits)

lemma moveDown_saved: "moveDown v = Some v' \<Longrightarrow> saved_of (Some v') = saved_of (Some v)"
  by (auto simp: moveDown_def split: Option.bind_splits if_splits
        dest: scrollUpN_saved moveRel_saved)

lemma advance_saved: "advance v = Some v' \<Longrightarrow> saved_of (Some v') = saved_of (Some v)"
  by (auto simp: advance_def saved_of_def split: Option.bind_splits if_splits
        dest!: moveRel_saved)

lemma put_unfold:
  "put r v = do {
     v1 \<leftarrow> put_wrap_step v;
     s1 \<leftarrow> Screen v1;
     advance (v1\<lparr>Screen := Some (put_paint_step r s1)\<rparr>)
   }"
  by (simp add: put_def put_wrap_step_def put_paint_step_def Let_def)

lemma put_paint_step_saved [simp]: "SavedCursor (put_paint_step r s) = SavedCursor s"
  by (simp add: put_paint_step_def Let_def)

lemma put_wrap_step_saved: "put_wrap_step v = Some v' \<Longrightarrow> saved_of (Some v') = saved_of (Some v)"
  by (auto simp: put_wrap_step_def saved_of_def split: if_splits Option.bind_splits
        dest!: moveDown_saved)

lemma put_saved:
  assumes "put r v = Some v'"
  shows "saved_of (Some v') = saved_of (Some v)"
proof -
  from assms obtain v1 s1 where
    w: "put_wrap_step v = Some v1" and s1: "Screen v1 = Some s1"
    and a: "advance (v1\<lparr>Screen := Some (put_paint_step r s1)\<rparr>) = Some v'"
    by (auto simp: put_unfold split: Option.bind_splits)
  from advance_saved [OF a] s1 have "saved_of (Some v') = saved_of (Some v1)"
    by (simp add: saved_of_def)
  with put_wrap_step_saved [OF w] show ?thesis by simp
qed

lemma ensureHeight_saved: "ensureHeight h v = Some v' \<Longrightarrow> saved_of (Some v') = saved_of (Some v)"
  by (auto simp: ensureHeight_def saved_of_def split: Option.bind_splits)

lemma Terminal_insertLines_saved:
  "Terminal_insertLines ensureHeight n v = Some v' \<Longrightarrow> saved_of (Some v') = saved_of (Some v)"
  by (auto simp: Terminal_insertLines_def saved_of_def split_beta Let_def
        split: Option.bind_splits if_splits dest!: ensureHeight_saved)

lemma Terminal_deleteLines_saved:
  "Terminal_deleteLines n v = Some v' \<Longrightarrow> saved_of (Some v') = saved_of (Some v)"
  by (auto simp: Terminal_deleteLines_def saved_of_def split_beta Let_def
        split: Option.bind_splits if_splits)

lemma Terminal_eraseCharacters_saved:
  "Terminal_eraseCharacters n v = Some v' \<Longrightarrow> saved_of (Some v') = saved_of (Some v)"
  by (auto simp: Terminal_eraseCharacters_def saved_of_def split: Option.bind_splits)

lemma Terminal_deleteCharacters_saved:
  "Terminal_deleteCharacters n v = Some v' \<Longrightarrow> saved_of (Some v') = saved_of (Some v)"
  by (auto simp: Terminal_deleteCharacters_def saved_of_def Let_def split: Option.bind_splits)

lemma Terminal_resize_saved:
  "Terminal_resize extra h w v = Some v' \<Longrightarrow> saved_of (Some v') = saved_of (Some v)"
  by (auto simp: Terminal_resize_def saved_of_def kept_def split: Option.bind_splits
        dest!: Screen_resize_kept)

lemma unsave_saved: "unsave v = Some v' \<Longrightarrow> saved_of (Some v') = saved_of (Some v)"
  by (auto simp: unsave_def saved_of_def split: Option.bind_splits)

lemma apply_op_saved:
  "apply_op extra x v = Some v' \<Longrightarrow> x \<noteq> Save \<Longrightarrow> x \<noteq> SwapAlt \<Longrightarrow> saved_of (Some v') = saved_of (Some v)"
  by (cases x)
     (simp_all add: put_saved moveDown_saved scrollUpN_saved Terminal_insertLines_saved
        Terminal_deleteLines_saved Terminal_eraseCharacters_saved Terminal_deleteCharacters_saved
        Terminal_resize_saved unsave_saved)

lemma apply_op_keeps: "x \<noteq> Save \<Longrightarrow> x \<noteq> SwapAlt \<Longrightarrow> keeps_saved (apply_op extra x)"
  unfolding keeps_saved_def by (blast intro: apply_op_saved)

lemma steps_saved:
  "steps fs v = Some v' \<Longrightarrow> \<forall>f \<in> set fs. keeps_saved f \<Longrightarrow> saved_of (Some v') = saved_of (Some v)"
proof (induction fs arbitrary: v)
  case Nil
  then show ?case by simp
next
  case (Cons f fs)
  from Cons.prems(1) obtain u where u: "f v = Some u" and r: "steps fs u = Some v'"
    by (auto split: Option.bind_splits)
  from Cons.prems(2) u have "saved_of (Some u) = saved_of (Some v)"
    by (simp add: keeps_saved_def)
  with Cons.IH [OF r] Cons.prems(2) show ?case by simp
qed

lemma steps_append: "steps (fs @ gs) v = Option.bind (steps fs v) (steps gs)"
  by (induction fs arbitrary: v) (simp_all split: Option.bind_splits)

lemma apply_op_save_unsave:
  "apply_op extra Save = save" "apply_op extra Unsave = unsave"
  by (simp_all add: fun_eq_iff)

section \<open>Editing and painting\<close>

lemma changed_fields [simp]:
  "Content (changed y c s) = Content s" "Format (changed y c s) = Format s"
  "Cursor (changed y c s) = Cursor s" "Height (changed y c s) = Height s"
  "Width (changed y c s) = Width s"
  by (simp_all add: changed_def)

lemma changed_Changes [simp]:
  "Changes (changed y c (s\<lparr>Content := a, Format := b\<rparr>)) = Changes (changed y c s)"
  "Changes (changed y c (s\<lparr>Content := a\<rparr>)) = Changes (changed y c s)"
  "Changes (changed y c (s\<lparr>Format := b\<rparr>)) = Changes (changed y c s)"
  by (simp_all add: changed_def)

lemma grid_put_row: "grid (put_row g y cs sp) = (grid g)[nat y := cs]"
  by (simp add: grid_def put_row_def map_update)

lemma grid_nth: "0 \<le> y \<Longrightarrow> y < len g \<Longrightarrow> grid g ! nat y = cells (cells g ! nat y)"
  by (simp add: grid_def len_def)

lemma length_grid [simp]: "length (grid g) = length (cells g)"
  by (simp add: grid_def)

lemma put_wrap_step_wrap: "put_wrap_step v = Some v1 \<Longrightarrow> \<not> wrap v1"
  by (auto simp: put_wrap_step_def split: if_splits Option.bind_splits)

lemma len_put_row [simp]: "len (put_row g y cs sp) = len g"
  by (simp add: put_row_def len_def)

lemma put_paint_step_cell:
  assumes "cursor_ok s"
  shows "Cursor (put_paint_step r s) = Cursor s"
    and "Width (put_paint_step r s) = Width s"
    and "Height (put_paint_step r s) = Height s"
    and "grid (Content (put_paint_step r s)) =
           (grid (Content s))[nat (Y (Cursor s)) :=
              (grid (Content s) ! nat (Y (Cursor s)))[nat (X (Cursor s)) := r]]"
    and "grid (Format (put_paint_step r s)) =
           (grid (Format s))[nat (Y (Cursor s)) :=
              (grid (Format s) ! nat (Y (Cursor s)))[nat (X (Cursor s)) := F (Cursor s)]]"
    and "len (Content (put_paint_step r s)) = len (Content s)"
    and "len (Format (put_paint_step r s)) = len (Format s)"
  using assms
  by (simp_all add: put_paint_step_def paint_def Format_Paint_def cursor_ok_def Let_def
        grid_put_row grid_nth in_grid_def)

section \<open>Claims\<close>

text \<open>
  C1. A registered \<^verbatim>\<open>onScrollback\<close> hook is to be called once for each line that a
  full-screen \<^verbatim>\<open>scrollUp\<close> evicts; in scenario S2 it is to receive the line "L0". In
  the source the call inside the loop of \<^verbatim>\<open>scrollUpN\<close> is a comment. At scenario S2,
  with a hook registered, \<^verbatim>\<open>moveDown\<close> at the bottom row scrolls the rows and leaves
  the cursor at (4,0), and the hook has received nothing.
\<close>

theorem moveDown_S2_scrollback_empty:
  "onScrollback term_S2
   \<and> content_of (Some term_S2) = Some rows_L
   \<and> content_of (moveDown term_S2) =
       Some [''L1        '', ''L2        '', ''L3        '', ''L4        '', ''          '']
   \<and> cursor_of (moveDown term_S2) = Some (at 4 0)
   \<and> map_option scrollback (moveDown term_S2) = Some []"
  by code_simp

text \<open>
  C2. After \<^verbatim>\<open>resize(h, w)\<close> the height and width fields are to be \<open>h\<close> and \<open>w\<close> and
  the cursor is to lie inside the new grid. \<^verbatim>\<open>Screen.resize\<close> changes the two grids
  only: on the 5 by 10 screen with the cursor on row 4, \<^verbatim>\<open>resize(3, 10)\<close> leaves three
  rows of content, the height field 5 and the cursor on row 4, and \<^verbatim>\<open>resize(5, 7)\<close>
  leaves rows of seven cells and the width field 10, whatever capacity \<^verbatim>\<open>append\<close>
  gives a slice that grows.
\<close>

theorem Screen_resize_shrink_stale:
  "map_option (len \<circ> Content) (Screen_resize extra 3 10 (screen_of rows_L (at 4 0) None)) = Some 3
   \<and> map_option Height (Screen_resize extra 3 10 (screen_of rows_L (at 4 0) None)) = Some 5
   \<and> map_option Cursor (Screen_resize extra 3 10 (screen_of rows_L (at 4 0) None)) = Some (at 4 0)
   \<and> map_option (len \<circ> Content) (Screen_resize extra 5 7 (screen_of rows_L (at 4 0) None)) = Some 5
   \<and> map_option (map len \<circ> cells \<circ> Content) (Screen_resize extra 5 7 (screen_of rows_L (at 4 0) None))
       = Some [7, 7, 7, 7, 7]
   \<and> map_option Width (Screen_resize extra 5 7 (screen_of rows_L (at 4 0) None)) = Some 10"
  by code_simp

text \<open>
  C3. No operation is to panic: \<^verbatim>\<open>clear\<close> is to ignore a cell outside the grid, also
  on ragged rows, and \<^verbatim>\<open>deleteCharacters(n)\<close> is to stay inside the cursor row for
  every \<open>n \<ge> 0\<close>. On the ragged screen, \<^verbatim>\<open>clear(1, 3, f)\<close> passes the guard, which
  reads the length of row 0, and indexes row 1 out of range. On a row of ten cells with
  the cursor at column 0, \<^verbatim>\<open>deleteCharacters(11)\<close> starts its fill loop at index -1.
  Both panic.
\<close>

theorem clear_and_deleteCharacters_panic:
  "Screen_clear 1 3 Format_zero screen_ragged = None
   \<and> deleteCharacters (fresh_grid [''abcdefghij'']) 0 0 11 CHR '' '' = None
   \<and> Terminal_deleteCharacters 11 (term_at 0 0 None) = None"
  by code_simp

text \<open>
  C4, as amended. A count \<open>n \<le> 0\<close> does not make every editing primitive a no-op.
  With the cursor on a cell of its row: \<^verbatim>\<open>eraseCharacters(n)\<close> with \<open>n \<le> 0\<close> erases
  one character, the rune under the cursor becomes a space and every other rune stays;
  \<^verbatim>\<open>deleteCharacters(n)\<close> with \<open>n < 0\<close> leaves all runes as they are;
  \<^verbatim>\<open>deleteCharacters(0)\<close> deletes one character, the runes right of the cursor move
  left by one and the last cell of the row holds some rune. Each of these calls clears
  the wrap flag and leaves the change counters as \<^verbatim>\<open>changed\<close> leaves them when it is
  handed the cursor row.
\<close>

theorem count_le_0_edits:
  assumes "Screen v = Some s"
    and "0 \<le> Y (Cursor s)" and "Y (Cursor s) < len (Content s)"
    and "0 \<le> X (Cursor s)" and "X (Cursor s) < len (cells (Content s) ! nat (Y (Cursor s)))"
  shows "(n \<le> 0 \<longrightarrow>
            content_of (Terminal_eraseCharacters n v) =
              Some ((grid (Content s))[nat (Y (Cursor s)) :=
                      (grid (Content s) ! nat (Y (Cursor s)))[nat (X (Cursor s)) := CHR '' '']])
            \<and> map_option wrap (Terminal_eraseCharacters n v) = Some False
            \<and> changes_of (Terminal_eraseCharacters n v) =
                Some (cells (Changes (changed (Y (Cursor s)) False s))))
       \<and> (n < 0 \<longrightarrow>
            content_of (Terminal_deleteCharacters n v) = Some (grid (Content s))
            \<and> map_option wrap (Terminal_deleteCharacters n v) = Some False
            \<and> changes_of (Terminal_deleteCharacters n v) =
                Some (cells (Changes (changed (Y (Cursor s)) False s))))
       \<and> (\<exists>c. content_of (Terminal_deleteCharacters 0 v) =
              Some ((grid (Content s))[nat (Y (Cursor s)) :=
                      take (nat (X (Cursor s))) (grid (Content s) ! nat (Y (Cursor s)))
                      @ drop (nat (X (Cursor s)) + 1) (grid (Content s) ! nat (Y (Cursor s))) @ [c]]))
       \<and> map_option wrap (Terminal_deleteCharacters 0 v) = Some False
       \<and> changes_of (Terminal_deleteCharacters 0 v) =
            Some (cells (Changes (changed (Y (Cursor s)) False s)))"
proof -
  let ?y = "Y (Cursor s)" and ?x = "X (Cursor s)"
  let ?r = "cells (Content s) ! nat ?y"
  let ?row = "cells ?r"
  have g: "grid (Content s) ! nat ?y = ?row"
    using assms by (simp add: grid_nth)
  have l: "nat ?x < length ?row" using assms by (simp add: len_def)
  have e: "eraseCharacters (Content s) ?y ?x n CHR '' ''
        = Some (Slice ((cells (Content s))[nat ?y := Slice (?row[nat ?x := CHR '' '']) (spare ?r)])
                  (spare (Content s)))" if "n \<le> 0"
    using assms that by (simp add: eraseCharacters_def idx_def upd_def for_up_one len_def)
  have f: "for_up 0 n
             (\<lambda>i fm. Some (Format_Paint ?y (?x + i) (F (Cursor s)) fm)) (Format s) = Some (Format s)"
    if "n \<le> 0"
    using that by (simp add: for_up_done)
  have 1: "content_of (Terminal_eraseCharacters n v) =
              Some ((grid (Content s))[nat ?y := (grid (Content s) ! nat ?y)[nat ?x := CHR '' '']])
            \<and> map_option wrap (Terminal_eraseCharacters n v) = Some False
            \<and> changes_of (Terminal_eraseCharacters n v) =
                Some (cells (Changes (changed ?y False s)))" if "n \<le> 0"
    using assms(1) e [OF that] f [OF that] g
    by (simp add: Terminal_eraseCharacters_def content_of_def changes_of_def grid_def map_update)
  have d: "deleteCharacters (Content s) ?y ?x n CHR '' '' = Some (Content s)" if "n < 0"
    using assms that by (simp add: deleteCharacters_def idx_def)
  have 2: "content_of (Terminal_deleteCharacters n v) = Some (grid (Content s))
            \<and> map_option wrap (Terminal_deleteCharacters n v) = Some False
            \<and> changes_of (Terminal_deleteCharacters n v) =
                Some (cells (Changes (changed ?y False s)))" if "n < 0"
    using assms(1) d [OF that]
    by (simp add: Terminal_deleteCharacters_def content_of_def changes_of_def Let_def)
  have "drop (length ?row - Suc (nat ?x)) (drop (nat ?x) ?row) = drop (length ?row - 1) ?row"
    using l by simp
  also have "\<dots> = [?row ! (length ?row - 1)]"
    using l Cons_nth_drop_Suc [of "length ?row - 1" ?row] by simp
  finally have dd: "drop (length ?row - Suc (nat ?x)) (drop (nat ?x) ?row) = [?row ! (length ?row - 1)]" .
  have "min (length ?row - nat ?x) (length ?row - Suc (nat ?x)) = length ?row - Suc (nat ?x)"
    by simp
  with dd have cp: "copy (Slice (drop (nat ?x) ?row) (spare ?r)) (Slice (drop (Suc (nat ?x)) ?row) (spare ?r))
      = drop (Suc (nat ?x)) ?row @ [?row ! (length ?row - 1)]"
    by (simp add: copy_def)
  have w: "write_at ?r ?x (drop (Suc (nat ?x)) ?row @ [?row ! (length ?row - 1)])
      = Slice (take (nat ?x) ?row @ drop (Suc (nat ?x)) ?row @ [?row ! (length ?row - 1)]) (spare ?r)"
    using l by (simp add: write_at_def)
  have d0: "deleteCharacters (Content s) ?y ?x 0 CHR '' ''
      = Some (Slice ((cells (Content s))[nat ?y :=
                Slice (take (nat ?x) ?row @ drop (nat ?x + 1) ?row @ [?row ! (length ?row - 1)]) (spare ?r)])
              (spare (Content s)))"
    using assms l cp w
    by (simp add: deleteCharacters_def idx_def upd_def slice_from_def len_def
          for_up_done Let_def nat_add_distrib)
  have 3: "content_of (Terminal_deleteCharacters 0 v) =
              Some ((grid (Content s))[nat ?y :=
                      take (nat ?x) (grid (Content s) ! nat ?y)
                      @ drop (nat ?x + 1) (grid (Content s) ! nat ?y) @ [?row ! (length ?row - 1)]])
       \<and> map_option wrap (Terminal_deleteCharacters 0 v) = Some False
       \<and> changes_of (Terminal_deleteCharacters 0 v) =
            Some (cells (Changes (changed ?y False s)))"
    using assms(1) d0 g
    by (simp add: Terminal_deleteCharacters_def content_of_def changes_of_def Let_def grid_def map_update)
  from 1 2 3 show ?thesis by blast
qed

text \<open>
  The theorem at the cursor (1,0) of the scenario terminal, with \<open>n = -2\<close>: the
  counter of row 1 is bumped.
\<close>

theorem count_le_0_edits_witness:
  "content_of (Terminal_eraseCharacters (- 2) (term_at 1 0 None)) =
      Some [''L0        '', '' 1        '', ''L2        '', ''L3        '', ''L4        '']
   \<and> map_option wrap (Terminal_eraseCharacters (- 2) (term_at 1 0 None)) = Some False
   \<and> changes_of (Terminal_eraseCharacters (- 2) (term_at 1 0 None)) = Some [0, 1, 0, 0, 0]
   \<and> content_of (Terminal_deleteCharacters (- 2) (term_at 1 0 None)) = Some rows_L
   \<and> map_option wrap (Terminal_deleteCharacters (- 2) (term_at 1 0 None)) = Some False"
proof -
  let ?t = "term_at 1 0 None" and ?s = "screen_of rows_L (at 1 0) None"
  have h1: "Screen ?t = Some ?s" by (simp add: term_at_def terminal_of_def)
  have h2: "0 \<le> Y (Cursor ?s)" and h3: "Y (Cursor ?s) < len (Content ?s)"
    and h4: "0 \<le> X (Cursor ?s)"
    and h5: "X (Cursor ?s) < len (cells (Content ?s) ! nat (Y (Cursor ?s)))"
    by (simp_all add: screen_of_def at_def fresh_grid_def len_def rows_L_def)
  have n: "(- 2 :: int) \<le> 0" "(- 2 :: int) < 0" by simp_all
  from count_le_0_edits [OF h1 h2 h3 h4 h5, of "- 2"] n
  have w: "map_option wrap (Terminal_eraseCharacters (- 2) ?t) = Some False"
    and d: "content_of (Terminal_deleteCharacters (- 2) ?t) = Some (grid (Content ?s))"
    and w': "map_option wrap (Terminal_deleteCharacters (- 2) ?t) = Some False"
    by blast+
  have g: "grid (Content ?s) = rows_L" by code_simp
  have c: "content_of (Terminal_eraseCharacters (- 2) ?t) =
      Some [''L0        '', '' 1        '', ''L2        '', ''L3        '', ''L4        '']"
    and ch: "changes_of (Terminal_eraseCharacters (- 2) ?t) = Some [0, 1, 0, 0, 0]"
    by code_simp+
  from c w ch d [unfolded g] w' show ?thesis by (intro conjI)
qed

text \<open>
  C4 as stated fails: on the scenario terminal with the cursor at (0,0),
  \<^verbatim>\<open>eraseCharacters(0)\<close> turns "L0" into " 0" and \<^verbatim>\<open>deleteCharacters(0)\<close> turns it
  into "0".
\<close>

theorem erase_zero_counterexample:
  "content_of (Some (term_at 0 0 None)) = Some rows_L
   \<and> content_of (Terminal_eraseCharacters 0 (term_at 0 0 None)) =
       Some ['' 0        '', ''L1        '', ''L2        '', ''L3        '', ''L4        '']
   \<and> content_of (Terminal_deleteCharacters 0 (term_at 0 0 None)) =
       Some [''0         '', ''L1        '', ''L2        '', ''L3        '', ''L4        '']
   \<and> content_of (Terminal_eraseCharacters 0 (term_at 0 0 None)) \<noteq> content_of (Some (term_at 0 0 None))
   \<and> content_of (Terminal_deleteCharacters 0 (term_at 0 0 None)) \<noteq> content_of (Some (term_at 0 0 None))"
  by code_simp

text \<open>
  C5, as amended. \<^verbatim>\<open>save\<close>, then any sequence of steps each of which leaves the saved
  cursor of the active screen as it is, then \<^verbatim>\<open>unsave\<close>, when no step panics, yields
  the cursor (position, format, style) exactly as it was at the \<^verbatim>\<open>save\<close>:
  \<^verbatim>\<open>unsave\<close> does not clamp the position. Every modelled operation other than
  \<^verbatim>\<open>save\<close> and \<^verbatim>\<open>swapAlt\<close> is such a step, for every growth policy of \<^verbatim>\<open>append\<close>.
\<close>

theorem save_ops_unsave:
  "(x \<noteq> Save \<and> x \<noteq> SwapAlt \<longrightarrow> keeps_saved (apply_op extra x))
   \<and> ((\<forall>f \<in> set fs. keeps_saved f) \<and> steps (save # fs @ [unsave]) v \<noteq> None
        \<longrightarrow> cursor_of (steps (save # fs @ [unsave]) v) = cursor_of (Some v))"
proof (intro conjI impI)
  assume "x \<noteq> Save \<and> x \<noteq> SwapAlt"
  then show "keeps_saved (apply_op extra x)" by (simp add: apply_op_keeps)
next
  assume a: "(\<forall>f \<in> set fs. keeps_saved f) \<and> steps (save # fs @ [unsave]) v \<noteq> None"
  then obtain v0 v1 v2 where s: "save v = Some v0" and r: "steps fs v0 = Some v1"
    and u: "unsave v1 = Some v2" and e: "steps (save # fs @ [unsave]) v = Some v2"
    by (auto simp: steps_append split: Option.bind_splits)
  from a have k: "\<forall>f \<in> set fs. keeps_saved f" by simp
  from s have "saved_of (Some v0) = cursor_of (Some v)"
    by (auto simp: save_def saved_of_def cursor_of_def split: Option.bind_splits)
  moreover from steps_saved [OF r k] have "saved_of (Some v1) = saved_of (Some v0)" .
  moreover from u have "cursor_of (Some v2) = saved_of (Some v1)"
    by (auto simp: unsave_def saved_of_def cursor_of_def split: Option.bind_splits)
  ultimately show "cursor_of (steps (save # fs @ [unsave]) v) = cursor_of (Some v)"
    using e by simp
qed

text \<open>
  The theorem on a sequence that paints, moves down, scrolls, deletes and inserts a
  line, shrinks the grid to 3 rows of 5 cells, reslices it to 4 rows and edits the row:
  the cursor saved at (2,3) is at (3,4) before \<^verbatim>\<open>unsave\<close> and at (2,3) after it.
\<close>

theorem save_ops_unsave_witness:
  "cursor_of (Some (term_at 2 3 None)) = Some (at 2 3)
   \<and> cursor_of (run cap_doubling
        [Save, Put CHR ''x'', MoveDown, ScrollUpN 1, DeleteLines 1, InsertLines 1,
         Resize 3 5, Resize 4 5, EraseCharacters 2, DeleteCharacters 1]
        (term_at 2 3 None)) = Some (at 3 4)
   \<and> cursor_of (run cap_doubling
        [Save, Put CHR ''x'', MoveDown, ScrollUpN 1, DeleteLines 1, InsertLines 1,
         Resize 3 5, Resize 4 5, EraseCharacters 2, DeleteCharacters 1, Unsave]
        (term_at 2 3 None)) = Some (at 2 3)"
proof -
  let ?ops = "[Put CHR ''x'', MoveDown, ScrollUpN 1, DeleteLines 1, InsertLines 1,
         Resize 3 5, Resize 4 5, EraseCharacters 2, DeleteCharacters 1]"
  let ?fs = "map (apply_op cap_doubling) ?ops"
  have k: "\<forall>f \<in> set ?fs. keeps_saved f"
    by (simp add: apply_op_keeps)
  have e: "steps (save # ?fs @ [unsave]) (term_at 2 3 None)
      = run cap_doubling (Save # ?ops @ [Unsave]) (term_at 2 3 None)"
    by (simp add: run_def apply_op_save_unsave)
  have ne: "run cap_doubling (Save # ?ops @ [Unsave]) (term_at 2 3 None) \<noteq> None"
    by code_simp
  have c: "cursor_of (Some (term_at 2 3 None)) = Some (at 2 3)"
    and m: "cursor_of (run cap_doubling (Save # ?ops) (term_at 2 3 None)) = Some (at 3 4)"
    by code_simp+
  from save_ops_unsave [where fs = ?fs and v = "term_at 2 3 None"] k ne [folded e]
  have "cursor_of (steps (save # ?fs @ [unsave]) (term_at 2 3 None)) = cursor_of (Some (term_at 2 3 None))"
    by blast
  with e c have "cursor_of (run cap_doubling (Save # ?ops @ [Unsave]) (term_at 2 3 None)) = Some (at 2 3)"
    by simp
  with c m show ?thesis by simp
qed

text \<open>
  C5 as stated fails, there is no clamping: the cursor saved at (4,8) on the 5 by 10
  terminal comes back as (4,8) after the grid has shrunk to 3 rows of 5 cells, outside
  the grid. After \<^verbatim>\<open>swapAlt\<close> the cursor that \<^verbatim>\<open>unsave\<close> restores is the one saved
  on the other screen.
\<close>

theorem unsave_no_clamp_counterexample:
  "cursor_of (run cap_doubling [Save, Put CHR ''x'', Resize 3 5] (term_at 4 8 None)) = Some (at 4 9)
   \<and> cursor_of (run cap_doubling [Save, Put CHR ''x'', Resize 3 5, Unsave] (term_at 4 8 None))
       = Some (at 4 8)
   \<and> content_of (run cap_doubling [Save, Put CHR ''x'', Resize 3 5, Unsave] (term_at 4 8 None))
       = Some [''L0   '', ''L1   '', ''L2   '']
   \<and> cursor_of (Some ((term_at 2 3 None)\<lparr>Alt := newScreen 5 10\<rparr>)) = Some (at 2 3)
   \<and> cursor_of (run cap_doubling [Save, SwapAlt, Unsave] ((term_at 2 3 None)\<lparr>Alt := newScreen 5 10\<rparr>))
       = Some (at 0 0)"
  by code_simp

text \<open>
  C6, as amended. \<^verbatim>\<open>swapAlt\<close> exchanges the active screen with \<open>Alt\<close> and toggles
  \<open>IsAlt\<close>; it allocates nothing. When \<open>Alt\<close> holds a freshly made screen of \<open>h\<close> by
  \<open>w\<close> cells, the active screen after the swap is blank with the cursor at (0,0),
  whatever was written on the main screen.
\<close>

theorem swapAlt_exchanges:
  "Screen (swapAlt v) = Alt v \<and> Alt (swapAlt v) = Screen v \<and> IsAlt (swapAlt v) = (\<not> IsAlt v)
   \<and> (0 \<le> h \<and> 0 \<le> w \<and> Alt v = newScreen h w \<longrightarrow>
        content_of (Some (swapAlt v)) = Some (replicate (nat h) (replicate (nat w) CHR '' ''))
        \<and> cursor_of (Some (swapAlt v)) = Some (at 0 0))"
  by (auto simp: swapAlt_def newScreen_def Screen_reset_def content_of_def cursor_of_def
        at_def Cursor_zero_def grid_def nil_def)

text \<open>
  The theorem on the scenario terminal with a fresh 5 by 10 screen in \<open>Alt\<close>.
\<close>

theorem swapAlt_exchanges_witness:
  "Alt ((term_at 0 5 None)\<lparr>Alt := newScreen 5 10\<rparr>) = newScreen 5 10
   \<and> content_of (Some ((term_at 0 5 None)\<lparr>Alt := newScreen 5 10\<rparr>)) = Some rows_L
   \<and> content_of (Some (swapAlt ((term_at 0 5 None)\<lparr>Alt := newScreen 5 10\<rparr>)))
       = Some (replicate 5 (replicate 10 CHR '' ''))
   \<and> cursor_of (Some (swapAlt ((term_at 0 5 None)\<lparr>Alt := newScreen 5 10\<rparr>))) = Some (at 0 0)
   \<and> Alt (swapAlt ((term_at 0 5 None)\<lparr>Alt := newScreen 5 10\<rparr>)) = Screen (term_at 0 5 None)"
proof -
  have "content_of (Some ((term_at 0 5 None)\<lparr>Alt := newScreen 5 10\<rparr>)) = Some rows_L"
    by code_simp
  with swapAlt_exchanges [of "(term_at 0 5 None)\<lparr>Alt := newScreen 5 10\<rparr>" 5 10]
  show ?thesis by simp
qed

text \<open>
  C6 as stated fails: \<^verbatim>\<open>NewTerminal(5, 10)\<close> has no alternate screen, and after
  "hello" is written the first \<^verbatim>\<open>swapAlt\<close> leaves the terminal with a nil active
  screen: there is no blank screen to look at.
\<close>

theorem swapAlt_fresh_counterexample:
  "map_option Alt (NewTerminal 5 10) = Some None
   \<and> content_of (Option.bind (NewTerminal 5 10) (run cap_doubling (map Put ''hello''))) =
       Some [''hello     '', ''          '', ''          '', ''          '', ''          '']
   \<and> map_option Screen (Option.bind (NewTerminal 5 10) (run cap_doubling (map Put ''hello'' @ [SwapAlt])))
       = Some None
   \<and> content_of (Option.bind (NewTerminal 5 10) (run cap_doubling (map Put ''hello'' @ [SwapAlt]))) = None"
  by code_simp

text \<open>
  C7. \<^verbatim>\<open>put(r)\<close>: a pending wrap is resolved first (cursor to column 0,
  \<^verbatim>\<open>moveDown\<close>, flag cleared; this is \<open>put_wrap_step\<close>). With the cursor then on a
  cell of the grid, the rune is painted there with the cursor's format; if
  \<open>AutoResizeX\<close> is off and the cursor is on column \<open>Width - 1\<close> the wrap flag is set
  and the cursor stays, otherwise the wrap flag is clear and the cursor is one column to
  the right.
\<close>

theorem put_behaviour:
  assumes "put_wrap_step v = Some v1" and "Screen v1 = Some s1" and "cursor_ok s1"
    and "AutoResizeX v1 \<or> X (Cursor s1) < Width s1"
  shows "\<exists>v' s'. put r v = Some v' \<and> Screen v' = Some s'
     \<and> grid (Content s') ! nat (Y (Cursor s1)) ! nat (X (Cursor s1)) = r
     \<and> grid (Format s') ! nat (Y (Cursor s1)) ! nat (X (Cursor s1)) = F (Cursor s1)
     \<and> (if \<not> AutoResizeX v1 \<and> X (Cursor s1) = Width s1 - 1
        then wrap v' \<and> Cursor s' = Cursor s1
        else \<not> wrap v' \<and> Cursor s' = (Cursor s1)\<lparr>X := X (Cursor s1) + 1\<rparr>)"
proof -
  let ?s2 = "put_paint_step r s1"
  let ?y = "nat (Y (Cursor s1))" and ?x = "nat (X (Cursor s1))"
  note pp = put_paint_step_cell [OF assms(3), of r]
  from assms(3) have ly: "?y < length (grid (Content s1))" "?y < length (grid (Format s1))"
    and lx: "?x < length (grid (Content s1) ! ?y)" "?x < length (grid (Format s1) ! ?y)"
    and nn: "0 \<le> Y (Cursor s1)" "0 \<le> X (Cursor s1)" "Y (Cursor s1) < Height s1"
    by (auto simp: cursor_ok_def in_grid_def len_def grid_def)
  have cell: "grid (Content ?s2) ! ?y ! ?x = r" "grid (Format ?s2) ! ?y ! ?x = F (Cursor s1)"
    using ly lx by (simp_all add: pp)
  have p: "put r v = advance (v1\<lparr>Screen := Some ?s2\<rparr>)"
    using assms(1,2) by (simp add: put_unfold)
  have nw: "\<not> wrap v1" using assms(1) by (rule put_wrap_step_wrap)
  show ?thesis
  proof (cases "\<not> AutoResizeX v1 \<and> X (Cursor s1) = Width s1 - 1")
    case True
    then have "put r v = Some (v1\<lparr>Screen := Some ?s2, wrap := True\<rparr>)"
      using p by (simp add: advance_def pp)
    with True cell pp(1) show ?thesis by simp
  next
    case False
    let ?s3 = "if AutoResizeX v1 then growRow (Y (Cursor s1)) (X (Cursor s1) + 1 + 1) ?s2 else ?s2"
    have g: "growY (Y (Cursor s1) + 1) ?s2 = ?s2"
      using nn by (simp add: growY_def pp)
    have m: "moveRel 0 1 (v1\<lparr>Screen := Some ?s2\<rparr>)
         = Some (v1\<lparr>Screen := Some (?s3\<lparr>Cursor := (Cursor s1)\<lparr>X := X (Cursor s1) + 1\<rparr>\<rparr>)\<rparr>)"
      using False assms(4) nn g
      by (auto simp: moveRel_def Let_def pp growRow_def)
    have ly2: "?y < length (cells (Content ?s2))" "?y < length (cells (Format ?s2))"
      using ly pp(6,7) by (simp_all add: len_def)
    then have r2: "cells (cells (Content ?s2) ! ?y) = grid (Content ?s2) ! ?y"
      "cells (cells (Format ?s2) ! ?y) = grid (Format ?s2) ! ?y"
      by (simp_all add: grid_def)
    have lx2: "?x < length (grid (Content ?s2) ! ?y)" "?x < length (grid (Format ?s2) ! ?y)"
      using ly lx by (simp_all add: pp(4,5))
    have c3: "grid (Content ?s3) ! ?y ! ?x = r" "grid (Format ?s3) ! ?y ! ?x = F (Cursor s1)"
      using cell ly2 lx2 nn
      by (auto simp: growRow_def grid_put_row r2 nth_append)
    from False have "put r v = Some (v1\<lparr>Screen := Some (changed (Y (Cursor s1)) True
        (?s3\<lparr>Cursor := (Cursor s1)\<lparr>X := X (Cursor s1) + 1\<rparr>\<rparr>))\<rparr>)"
      using p m by (cases "AutoResizeX v1") (simp_all add: advance_def pp)
    with False c3 nw show ?thesis by (cases "AutoResizeX v1") simp_all
  qed
qed

text \<open>
  The theorem in scenario S1: after ten 'A's the wrap is pending; 'B' lands on (1,0) and
  the cursor ends on (1,1).
\<close>

theorem put_behaviour_witness:
  "content_of (put CHR ''B'' term_S1) =
      Some [''AAAAAAAAAA'', ''B         '', ''          '', ''          '', ''          '']
   \<and> cursor_of (put CHR ''B'' term_S1) = Some (at 1 1)
   \<and> map_option wrap (put CHR ''B'' term_S1) = Some False
   \<and> wrap term_S1"
proof -
  let ?v1 = "terminal_of (screen_of
       [''AAAAAAAAAA'', ''          '', ''          '', ''          '', ''          '']
       (at 1 0) None)"
  let ?s1 = "screen_of [''AAAAAAAAAA'', ''          '', ''          '', ''          '', ''          '']
       (at 1 0) None"
  have h1: "put_wrap_step term_S1 = Some ?v1" by code_simp
  have h2: "Screen ?v1 = Some ?s1" by (simp add: terminal_of_def)
  have h3: "cursor_ok ?s1"
    by (simp add: cursor_ok_def in_grid_def screen_of_def at_def len_def fresh_grid_def)
  have h4: "AutoResizeX ?v1 \<or> X (Cursor ?s1) < Width ?s1" by (simp add: screen_of_def at_def)
  have c: "content_of (put CHR ''B'' term_S1) =
      Some [''AAAAAAAAAA'', ''B         '', ''          '', ''          '', ''          '']"
    by code_simp
  have n: "\<not> (\<not> AutoResizeX ?v1 \<and> X (Cursor ?s1) = Width ?s1 - 1)"
    by (simp add: screen_of_def at_def)
  from put_behaviour [OF h1 h2 h3 h4, of "CHR ''B''"]
  obtain v' s' where "put CHR ''B'' term_S1 = Some v'" "Screen v' = Some s'"
    "\<not> wrap v'" "Cursor s' = (Cursor ?s1)\<lparr>X := X (Cursor ?s1) + 1\<rparr>"
    unfolding if_not_P [OF n] by blast
  then have "cursor_of (put CHR ''B'' term_S1) = Some (at 1 1)"
    "map_option wrap (put CHR ''B'' term_S1) = Some False"
    by (simp_all add: cursor_of_def screen_of_def at_def)
  moreover have "wrap term_S1" by (simp add: term_S1_def)
  ultimately show ?thesis using c by (intro conjI)
qed

text \<open>
  C8. \<^verbatim>\<open>moveDown\<close> with the cursor on the bottom row of the screen and
  \<open>AutoResizeY\<close> off, when the cursor is not on the last row of a scroll region, is to
  scroll the full screen up by one line; the comment in that branch of the source says
  "scroll the screen". The branch calls \<^verbatim>\<open>scrollUpN(1)\<close>, which takes its range from
  \<^verbatim>\<open>scrollRegion()\<close>: with the scroll region (1,3) and the cursor on row 4 of the 5 by
  10 terminal, rows 1 to 3 scroll and rows 0 and 4 stay, where a scroll of rows 0 to 4
  gives "L1" to "L4" and a blank row. On a terminal of one row the same branch changes
  nothing, because the generic \<^verbatim>\<open>scrollUp\<close> returns when its range has one row. The
  cursor stays in both.
\<close>

theorem moveDown_below_region_scrolls_region:
  "content_of (moveDown (term_at 4 0 (Some \<lparr>Start = 1, End = 3\<rparr>))) =
       Some [''L0        '', ''L2        '', ''L3        '', ''          '', ''L4        '']
   \<and> cursor_of (moveDown (term_at 4 0 (Some \<lparr>Start = 1, End = 3\<rparr>))) = Some (at 4 0)
   \<and> map_option grid (scrollUp (fresh_grid rows_L) 1 0 4 CHR '' '') =
       Some [''L1        '', ''L2        '', ''L3        '', ''L4        '', ''          '']
   \<and> content_of (moveDown term_one_row) = Some [''L0        '']
   \<and> cursor_of (moveDown term_one_row) = Some (at 0 0)"
  by code_simp

text \<open>
  C9. \<^verbatim>\<open>swapAlt\<close> twice gives back the terminal as it was: both screens with their
  contents, formats, cursors, saved cursors and scroll regions, and the flag \<open>IsAlt\<close>.
\<close>

theorem swapAlt_twice: "swapAlt (swapAlt v) = v"
  by (simp add: swapAlt_def)

text \<open>
  C10. With a scroll region set and the cursor row outside it, \<^verbatim>\<open>deleteLines(n)\<close>
  returns the terminal unchanged, and \<^verbatim>\<open>insertLines(n)\<close> does what its first
  statement \<^verbatim>\<open>ensureHeight(cursor.y + n)\<close> does and nothing more, for every
  \<^verbatim>\<open>ensureHeight\<close> that leaves the cursor and the scroll region in place. The sum
  is a 64-bit sum.
\<close>

theorem lines_outside_region:
  assumes "Screen v = Some s" and "ScrollRegion s = Some r"
    and "Y (Cursor s) < Start r \<or> End r < Y (Cursor s)"
  shows "Terminal_deleteLines n v = Some v
    \<and> ((\<forall>u. eh (i64 (Y (Cursor s) + n)) v = Some u \<longrightarrow>
            (\<exists>t. Screen u = Some t \<and> Cursor t = Cursor s \<and> ScrollRegion t = ScrollRegion s))
        \<longrightarrow> Terminal_insertLines eh n v = eh (i64 (Y (Cursor s) + n)) v)"
proof (intro conjI impI)
  from assms show "Terminal_deleteLines n v = Some v"
    by (auto simp: Terminal_deleteLines_def scrollRegion_def)
next
  assume h: "\<forall>u. eh (i64 (Y (Cursor s) + n)) v = Some u \<longrightarrow>
            (\<exists>t. Screen u = Some t \<and> Cursor t = Cursor s \<and> ScrollRegion t = ScrollRegion s)"
  show "Terminal_insertLines eh n v = eh (i64 (Y (Cursor s) + n)) v"
  proof (cases "eh (i64 (Y (Cursor s) + n)) v")
    case None
    with assms show ?thesis by (simp add: Terminal_insertLines_def)
  next
    case (Some u)
    with h obtain t where "Screen u = Some t" "Cursor t = Cursor s" "ScrollRegion t = ScrollRegion s"
      by blast
    with assms Some show ?thesis
      by (auto simp: Terminal_insertLines_def scrollRegion_def)
  qed
qed

text \<open>
  The theorem with the scroll region (1,3), the cursor on row 4 and \<open>n = 2\<close>: the
  instance \<open>ensureHeight\<close> appends one blank row and the five rows stay.
\<close>

theorem lines_outside_region_witness:
  "Terminal_deleteLines 2 (term_at 4 0 (Some \<lparr>Start = 1, End = 3\<rparr>))
     = Some (term_at 4 0 (Some \<lparr>Start = 1, End = 3\<rparr>))
   \<and> Terminal_insertLines ensureHeight 2 (term_at 4 0 (Some \<lparr>Start = 1, End = 3\<rparr>))
     = ensureHeight 6 (term_at 4 0 (Some \<lparr>Start = 1, End = 3\<rparr>))
   \<and> content_of (Terminal_insertLines ensureHeight 2 (term_at 4 0 (Some \<lparr>Start = 1, End = 3\<rparr>)))
     = Some (rows_L @ [''          ''])
   \<and> cursor_of (Terminal_insertLines ensureHeight 2 (term_at 4 0 (Some \<lparr>Start = 1, End = 3\<rparr>)))
     = Some (at 4 0)"
proof -
  let ?r = "\<lparr>Start = 1, End = 3\<rparr>"
  have e: "content_of (ensureHeight 6 (term_at 4 0 (Some ?r))) = Some (rows_L @ [''          ''])
      \<and> cursor_of (ensureHeight 6 (term_at 4 0 (Some ?r))) = Some (at 4 0)"
    by code_simp
  have "Terminal_deleteLines 2 (term_at 4 0 (Some ?r)) = Some (term_at 4 0 (Some ?r))
     \<and> Terminal_insertLines ensureHeight 2 (term_at 4 0 (Some ?r)) = ensureHeight 6 (term_at 4 0 (Some ?r))"
    using lines_outside_region [of "term_at 4 0 (Some ?r)" "screen_of rows_L (at 4 0) (Some ?r)" ?r 2 ensureHeight]
    by (simp add: term_at_def terminal_of_def screen_of_def at_def ensureHeight_def growY_def i64_def)
  with e show ?thesis by simp
qed

end
